theory Spec2Isabelle
  imports Complex_Main "HOL-Library.Sublist"
begin

section \<open>Data model of \<^verbatim>\<open>src/Instance.ts\<close>\<close>

text \<open>
  The class \<^verbatim>\<open>Instance\<close> is the only source file. Everything it imports (the module
  loader, the media selector, the environment probe, the controller, the event emitter,
  the DOM) is a collaborator: its calls are recorded, in order, in the field \<open>calls\<close>,
  and what an asynchronous collaborator answers is a parameter of the model (the record
  \<open>World\<close>), so that every theorem holds for every possible answer.

  A JavaScript reference that may be \<^verbatim>\<open>null\<close> or \<^verbatim>\<open>undefined\<close> is an \<open>option\<close>; reading
  a property of \<^verbatim>\<open>null\<close> raises a \<^verbatim>\<open>TypeError\<close>, which is a value of the type \<open>thrown\<close>.
\<close>

datatype ErrorCodes = NO_SUPPORTED_FORMAT_FOUND | CONTROLLER_LOAD_FAILED

datatype thrown =
    TypeError string  \<comment> \<open>raised by the runtime; the string names the expression\<close>
  | Reason string     \<comment> \<open>the value a collaborator threw or rejected with\<close>

text \<open>\<^verbatim>\<open>new PlayerError(code, underlyingError?)\<close>\<close>

record PlayerError =
  code :: ErrorCodes
  underlyingError :: "thrown option"

datatype Events = READY | ERROR | DESTROY

text \<open>The payload of an event; \<^verbatim>\<open>{ error } as ErrorEventData\<close> is the only one built here.\<close>

datatype EventData = ErrorEventData PlayerError

text \<open>
  A module (controller, player, media backend or extension) is an object with a
  \<^verbatim>\<open>name\<close>; \<open>ident\<close> stands for the identity of the object, so that two modules of the
  same name are still two modules.
\<close>

record Module =
  name :: string
  ident :: nat

datatype ModuleLoaderTypes = CONTROLLER | EXTENSION | PLAYER

record Format =
  type_hint :: string
  src :: string

record Config =
  sources :: "Format list"
  autoplay :: bool
  ignorePolyfills :: bool

record Env =
  canAutoplay :: bool

datatype HTMLElement = Element (classList: "string list") (childNodes: "HTMLElement list")

text \<open>The calls made on collaborators, as they appear in the source.\<close>

datatype call =
    ImportPolyfills                        \<comment> \<open>\<^verbatim>\<open>import('ts-polyfill')\<close>\<close>
  | GetEnv                                 \<comment> \<open>\<^verbatim>\<open>getEnv()\<close>\<close>
  | CreateFirstSupported ModuleLoaderTypes \<comment> \<open>\<^verbatim>\<open>createFirstSupported(type, this, ...)\<close>\<close>
  | CreateAllSupported ModuleLoaderTypes   \<comment> \<open>\<^verbatim>\<open>createAllSupported(type, this, ...)\<close>\<close>
  | SelectMedia "Format list"              \<comment> \<open>\<^verbatim>\<open>selectMedia(this, config.sources)\<close>\<close>
  | Boot                                   \<comment> \<open>\<^verbatim>\<open>this.controller.boot()\<close>\<close>
  | Load                                   \<comment> \<open>\<^verbatim>\<open>this.controller.load()\<close>\<close>
  | Unload                                 \<comment> \<open>\<^verbatim>\<open>this.controller.unload()\<close>\<close>
  | Play                                   \<comment> \<open>\<^verbatim>\<open>this.controller.play()\<close>\<close>
  | Pause                                  \<comment> \<open>\<^verbatim>\<open>this.controller.pause()\<close>\<close>
  | SeekTo real                            \<comment> \<open>\<^verbatim>\<open>this.controller.seekTo(time)\<close>\<close>
  | SetVolume real                         \<comment> \<open>\<^verbatim>\<open>this.controller.setVolume(volume)\<close>\<close>
  | Emit Events "EventData option"         \<comment> \<open>\<^verbatim>\<open>this.emitter.emit(name, eventData)\<close>\<close>
  | RemoveAllListeners                     \<comment> \<open>\<^verbatim>\<open>this.emitter.removeAllListeners()\<close>\<close>

text \<open>
  The fields of the class. \<open>mounted\<close> says whether \<open>container\<close> is a child of the host
  element; \<open>calls\<close> is the log of the calls made on collaborators. The three
  sub-containers are the children of \<open>container\<close>.
\<close>

record Instance =
  config :: Config
  container :: HTMLElement
  mounted :: bool
  env :: "Env option"
  controller :: "Module option"
  player :: "Module option"
  media :: "Module option"
  format :: "Format option"
  extensions :: "Module list option"
  calls :: "call list"

text \<open>
  Modelled from the spec: the collaborators that are not in \<^verbatim>\<open>src/\<close>
  (\<^verbatim>\<open>ModuleLoader\<close>, \<^verbatim>\<open>selectMedia\<close>, \<^verbatim>\<open>getEnv\<close>, the polyfill chunk and the
  controller's \<^verbatim>\<open>boot\<close> and \<^verbatim>\<open>load\<close>). Each is asynchronous: its promise is rejected with
  a value (\<open>Inl\<close>) or resolved with a result (\<open>Inr\<close>). \<^verbatim>\<open>createFirstSupported\<close> resolves
  with a module or fails; \<^verbatim>\<open>createAllSupported\<close> resolves with a sequence of modules;
  \<^verbatim>\<open>selectMedia\<close> resolves with the two-element array that the source destructures
  into \<^verbatim>\<open>[format, media]\<close>. The synchronous controller methods \<^verbatim>\<open>unload\<close>, \<^verbatim>\<open>play\<close>,
  \<^verbatim>\<open>pause\<close>, \<^verbatim>\<open>seekTo\<close> and \<^verbatim>\<open>setVolume\<close> return normally, and so do the methods of the
  event emitter (no listener throws).
\<close>

record World =
  import_polyfills :: "thrown + unit"
  getEnv :: "thrown + Env"
  createFirstSupported :: "ModuleLoaderTypes \<Rightarrow> thrown + Module"
  createAllSupported :: "ModuleLoaderTypes \<Rightarrow> thrown + Module list"
  selectMedia :: "Format list \<Rightarrow> thrown + (Format option \<times> Module option)"
  boot :: "Module \<Rightarrow> thrown + unit"
  load :: "Module \<Rightarrow> thrown + unit"

section \<open>The operations of the class\<close>

definition invoke :: "call \<Rightarrow> Instance \<Rightarrow> Instance" where
  "invoke c s = s\<lparr>calls := calls s @ [c]\<rparr>"

definition emit :: "Events \<Rightarrow> EventData option \<Rightarrow> Instance \<Rightarrow> Instance" where
  "emit ev data s = invoke (Emit ev data) s"

text \<open>
  A method that changes the instance returns the instance it leaves behind and the value
  it threw, if any (\<open>None\<close>: it returned normally).
\<close>

definition play :: "Instance \<Rightarrow> Instance \<times> thrown option" where
  "play s =
     (case controller s of
        None \<Rightarrow> (s, Some (TypeError ''this.controller.play''))
      | Some c \<Rightarrow> (invoke Play s, None))"

definition pause :: "Instance \<Rightarrow> Instance \<times> thrown option" where
  "pause s =
     (case controller s of
        None \<Rightarrow> (s, Some (TypeError ''this.controller.pause''))
      | Some c \<Rightarrow> (invoke Pause s, None))"

definition seekTo :: "real \<Rightarrow> Instance \<Rightarrow> Instance \<times> thrown option" where
  "seekTo time s =
     (case controller s of
        None \<Rightarrow> (s, Some (TypeError ''this.controller.seekTo''))
      | Some c \<Rightarrow> (invoke (SeekTo time) s, None))"

definition setVolume :: "real \<Rightarrow> Instance \<Rightarrow> Instance \<times> thrown option" where
  "setVolume volume s =
     (case controller s of
        None \<Rightarrow> (s, Some (TypeError ''this.controller.setVolume''))
      | Some c \<Rightarrow> (invoke (SetVolume volume) s, None))"

definition setError :: "PlayerError \<Rightarrow> Instance \<Rightarrow> Instance \<times> thrown option" where
  "setError err s =
     (case controller s of
        None \<Rightarrow> (s, Some (TypeError ''this.controller.unload''))
      | Some c \<Rightarrow> (emit ERROR (Some (ErrorEventData err)) (invoke Unload s), None))"

text \<open>
  \<^verbatim>\<open>this.config.autoplay && this.env.canAutoplay\<close>: the right operand is read only when
  the left one is true.
\<close>

definition Instance_canAutoplay :: "Instance \<Rightarrow> thrown + bool" where
  "Instance_canAutoplay s =
     (if autoplay (config s) then
        (case env s of
           None \<Rightarrow> Inl (TypeError ''this.env.canAutoplay'')
         | Some e \<Rightarrow> Inr (canAutoplay e))
      else Inr False)"

text \<open>\<^verbatim>\<open>while (div.firstChild) { div.removeChild(div.firstChild); }\<close>\<close>

fun removeChildren :: "HTMLElement list \<Rightarrow> HTMLElement list" where
  "removeChildren [] = []"
| "removeChildren (firstChild # rest) = removeChildren rest"

definition destroy :: "Instance \<Rightarrow> Instance \<times> thrown option" where
  "destroy s =
     (let s1 = emit DESTROY None s;
          s2 = invoke RemoveAllListeners s1
      in case controller s2 of
           None \<Rightarrow> (s2, Some (TypeError ''this.controller.unload''))
         | Some c \<Rightarrow>
             (let s3 = invoke Unload s2;
                  s4 = s3\<lparr>controller := None, player := None, format := None, media := None\<rparr>;
                  el = container s4;
                  s5 = s4\<lparr>container := Element (classList el) (removeChildren (childNodes el))\<rparr>
              in (s5\<lparr>mounted := False\<rparr>, None)))"

text \<open>
  \<^verbatim>\<open>find(modules, { name })\<close> is lodash's: it returns the first element that is an object
  whose \<^verbatim>\<open>name\<close> is the given one, and \<^verbatim>\<open>undefined\<close> when there is none; an element that is
  \<^verbatim>\<open>null\<close> never matches.
\<close>

fun find_name :: "Module option list \<Rightarrow> string \<Rightarrow> Module option" where
  "find_name [] n = None"
| "find_name (None # ms) n = find_name ms n"
| "find_name (Some m # ms) n = (if name m = n then Some m else find_name ms n)"

text \<open>Spreading \<^verbatim>\<open>this.extensions\<close> raises a \<^verbatim>\<open>TypeError\<close> while the field is undefined.\<close>

definition getModule :: "string \<Rightarrow> Instance \<Rightarrow> thrown + Module option" where
  "getModule n s =
     (case extensions s of
        None \<Rightarrow> Inl (TypeError ''...this.extensions'')
      | Some es \<Rightarrow> Inr (find_name (map Some es @ [controller s, media s, player s]) n))"

record Stats =
  stats_controller :: "string \<times> Module"
  stats_media :: "string \<times> Module"
  stats_player :: "string \<times> Module"
  stats_extensions :: "(string \<times> Module) list"

definition getStats :: "Instance \<Rightarrow> thrown + Stats" where
  "getStats s =
     (case controller s of
        None \<Rightarrow> Inl (TypeError ''this.controller.name'')
      | Some c \<Rightarrow>
     (case media s of
        None \<Rightarrow> Inl (TypeError ''this.media.name'')
      | Some m \<Rightarrow>
     (case player s of
        None \<Rightarrow> Inl (TypeError ''this.player.name'')
      | Some p \<Rightarrow>
     (case extensions s of
        None \<Rightarrow> Inl (TypeError ''this.extensions.map'')
      | Some es \<Rightarrow>
          Inr \<lparr>stats_controller = (name c, c), stats_media = (name m, m),
               stats_player = (name p, p),
               stats_extensions = map (\<lambda>extension. (name extension, extension)) es\<rparr>))))"

subsection \<open>The constructor\<close>

definition createContainers :: HTMLElement where
  "createContainers =
     Element [''ig-container'']
       [Element [''ig-player''] [], Element [''ig-ads''] [], Element [''ig-ui''] []]"

text \<open>
  The instance as \<^verbatim>\<open>new Instance(element, config)\<close> leaves it when \<^verbatim>\<open>init\<close> has not yet
  passed its first \<^verbatim>\<open>await\<close>: the containers exist and are mounted, nothing is resolved.
\<close>

definition constructor :: "Config \<Rightarrow> Instance" where
  "constructor cfg =
     \<lparr>config = cfg, container = createContainers, mounted = True, env = None,
      controller = None, player = None, media = None, format = None,
      extensions = None, calls = []\<rparr>"

subsection \<open>\<^verbatim>\<open>init\<close>, one \<^verbatim>\<open>await\<close> at a time\<close>

text \<open>
  \<^verbatim>\<open>init\<close> is an \<^verbatim>\<open>async\<close> function: it runs from one \<^verbatim>\<open>await\<close> to the next. A \<open>stage\<close> names
  the \<^verbatim>\<open>await\<close> that control is about to reach; \<open>step\<close> makes the awaited call, takes
  its answer from the world, and runs the code up to the next \<^verbatim>\<open>await\<close> or to the end of the
  function. A log entry of an awaited call stands for the call together with the
  settlement of its promise.

  The source keeps no state tag. The \<open>status\<close> says where the control of \<^verbatim>\<open>init\<close> stands:
  \<open>Ready\<close> when it returned after emitting \<^verbatim>\<open>Events.READY\<close>, \<open>Error\<close> when it returned after
  \<^verbatim>\<open>setError\<close>, \<open>Rejected\<close> when a value was thrown and not caught, so that the promise of
  \<^verbatim>\<open>init\<close> is rejected.
\<close>

datatype stage =
  AwaitPolyfills | AwaitEnv | AwaitController | AwaitBoot | AwaitExtensions | AwaitPlayer
  | AwaitMedia | AwaitLoad

datatype status = At stage | Ready | Error | Rejected thrown

definition returns :: "status \<Rightarrow> Instance \<times> thrown option \<Rightarrow> Instance \<times> status" where
  "returns st r = (case snd r of None \<Rightarrow> (fst r, st) | Some e \<Rightarrow> (fst r, Rejected e))"

text \<open>\<^verbatim>\<open>await this.controller.load()\<close> inside \<^verbatim>\<open>try\<close>: what the \<^verbatim>\<open>catch\<close> clause receives, if anything.\<close>

definition try_load :: "World \<Rightarrow> Instance \<Rightarrow> Instance \<times> thrown option" where
  "try_load w s =
     (case controller s of
        None \<Rightarrow> (s, Some (TypeError ''this.controller.load''))
      | Some c \<Rightarrow>
          (case load w c of
             Inl error \<Rightarrow> (invoke Load s, Some error)
           | Inr _ \<Rightarrow> (invoke Load s, None)))"

fun step :: "World \<Rightarrow> Instance \<times> status \<Rightarrow> Instance \<times> status" where
  "step w (s, At AwaitPolyfills) =
     (if \<not> ignorePolyfills (config s) then
        (case import_polyfills w of
           Inl e \<Rightarrow> (invoke ImportPolyfills s, Rejected e)
         | Inr _ \<Rightarrow> (invoke ImportPolyfills s, At AwaitEnv))
      else (s, At AwaitEnv))"
| "step w (s, At AwaitEnv) =
     (case getEnv w of
        Inl e \<Rightarrow> (invoke GetEnv s, Rejected e)
      | Inr v \<Rightarrow> ((invoke GetEnv s)\<lparr>env := Some v\<rparr>, At AwaitController))"
| "step w (s, At AwaitController) =
     (case createFirstSupported w CONTROLLER of
        Inl e \<Rightarrow> (invoke (CreateFirstSupported CONTROLLER) s, Rejected e)
      | Inr c \<Rightarrow> ((invoke (CreateFirstSupported CONTROLLER) s)\<lparr>controller := Some c\<rparr>, At AwaitBoot))"
| "step w (s, At AwaitBoot) =
     (case controller s of
        None \<Rightarrow> (s, Rejected (TypeError ''this.controller.boot''))
      | Some c \<Rightarrow>
          (case boot w c of
             Inl e \<Rightarrow> (invoke Boot s, Rejected e)
           | Inr _ \<Rightarrow> (invoke Boot s, At AwaitExtensions)))"
| "step w (s, At AwaitExtensions) =
     (case createAllSupported w EXTENSION of
        Inl e \<Rightarrow> (invoke (CreateAllSupported EXTENSION) s, Rejected e)
      | Inr es \<Rightarrow> ((invoke (CreateAllSupported EXTENSION) s)\<lparr>extensions := Some es\<rparr>, At AwaitPlayer))"
| "step w (s, At AwaitPlayer) =
     (case createFirstSupported w PLAYER of
        Inl e \<Rightarrow> (invoke (CreateFirstSupported PLAYER) s, Rejected e)
      | Inr p \<Rightarrow> ((invoke (CreateFirstSupported PLAYER) s)\<lparr>player := Some p\<rparr>, At AwaitMedia))"
| "step w (s, At AwaitMedia) =
     (case selectMedia w (sources (config s)) of
        Inl e \<Rightarrow> (invoke (SelectMedia (sources (config s))) s, Rejected e)
      | Inr (fmt, med) \<Rightarrow>
          (let s1 = invoke (SelectMedia (sources (config s))) s
           in case med of
                None \<Rightarrow>
                  returns Error
                    (setError \<lparr>code = NO_SUPPORTED_FORMAT_FOUND, underlyingError = None\<rparr> s1)
              | Some m \<Rightarrow> (s1\<lparr>format := fmt, media := Some m\<rparr>, At AwaitLoad)))"
| "step w (s, At AwaitLoad) =
     (case try_load w s of
        (s1, Some error) \<Rightarrow>
          returns Error
            (setError \<lparr>code = CONTROLLER_LOAD_FAILED, underlyingError = Some error\<rparr> s1)
      | (s1, None) \<Rightarrow>
          (let s2 = emit READY None s1
           in case Instance_canAutoplay s2 of
                Inl e \<Rightarrow> (s2, Rejected e)
              | Inr True \<Rightarrow> returns Ready (play s2)
              | Inr False \<Rightarrow> (s2, Ready)))"
| "step w (s, Ready) = (s, Ready)"
| "step w (s, Error) = (s, Error)"
| "step w (s, Rejected e) = (s, Rejected e)"

fun run :: "nat \<Rightarrow> World \<Rightarrow> Instance \<times> status \<Rightarrow> Instance \<times> status" where
  "run 0 w c = c"
| "run (Suc k) w c = run k w (step w c)"

text \<open>\<^verbatim>\<open>init\<close> has eight \<^verbatim>\<open>await\<close>s, so eight steps run it to its end.\<close>

definition init :: "World \<Rightarrow> Instance \<Rightarrow> Instance \<times> status" where
  "init w s = run 8 w (s, At AwaitPolyfills)"

text \<open>A bootstrap: the constructor, then \<^verbatim>\<open>init\<close> run to its end without interference.\<close>

definition bootstrap :: "World \<Rightarrow> Config \<Rightarrow> Instance \<times> status" where
  "bootstrap w cfg = init w (constructor cfg)"

section \<open>Vocabulary of the properties\<close>

text \<open>
  \<open>rank\<close> counts the \<^verbatim>\<open>await\<close>s that precede a stage. \<open>reaches w cfg st\<close> says that in the world
  \<open>w\<close> every promise awaited before the stage \<open>st\<close> is resolved, so that an undisturbed
  bootstrap gets as far as \<open>st\<close>.
\<close>

fun rank :: "stage \<Rightarrow> nat" where
  "rank AwaitPolyfills = 0"
| "rank AwaitEnv = 1"
| "rank AwaitController = 2"
| "rank AwaitBoot = 3"
| "rank AwaitExtensions = 4"
| "rank AwaitPlayer = 5"
| "rank AwaitMedia = 6"
| "rank AwaitLoad = 7"

function reaches :: "World \<Rightarrow> Config \<Rightarrow> stage \<Rightarrow> bool" where
  "reaches w cfg AwaitPolyfills = True"
| "reaches w cfg AwaitEnv = (ignorePolyfills cfg \<or> \<not> isl (import_polyfills w))"
| "reaches w cfg AwaitController = (reaches w cfg AwaitEnv \<and> \<not> isl (getEnv w))"
| "reaches w cfg AwaitBoot =
     (reaches w cfg AwaitController \<and> \<not> isl (createFirstSupported w CONTROLLER))"
| "reaches w cfg AwaitExtensions =
     (reaches w cfg AwaitBoot \<and>
      (case createFirstSupported w CONTROLLER of Inl e \<Rightarrow> False | Inr c \<Rightarrow> \<not> isl (boot w c)))"
| "reaches w cfg AwaitPlayer =
     (reaches w cfg AwaitExtensions \<and> \<not> isl (createAllSupported w EXTENSION))"
| "reaches w cfg AwaitMedia =
     (reaches w cfg AwaitPlayer \<and> \<not> isl (createFirstSupported w PLAYER))"
| "reaches w cfg AwaitLoad =
     (reaches w cfg AwaitMedia \<and>
      (case selectMedia w (sources cfg) of
         Inl e \<Rightarrow> False
       | Inr (fmt, med) \<Rightarrow> med \<noteq> None))"
  by pat_completeness auto
termination
  by (relation "measure (\<lambda>(w, cfg, st). rank st)") auto

text \<open>
  The instance an undisturbed bootstrap holds when control stands at the media selection
  (\<open>selecting\<close>) and at the load of the controller (\<open>loading\<close>), and the three instances
  it can end with when \<^verbatim>\<open>init\<close> returns.
\<close>

definition preamble :: "Config \<Rightarrow> call list" where
  "preamble cfg = (if ignorePolyfills cfg then [] else [ImportPolyfills])"

definition selecting :: "Config \<Rightarrow> Env \<Rightarrow> Module \<Rightarrow> Module list \<Rightarrow> Module \<Rightarrow> Instance" where
  "selecting cfg e c es p =
     \<lparr>config = cfg, container = createContainers, mounted = True, env = Some e,
      controller = Some c, player = Some p, media = None, format = None,
      extensions = Some es,
      calls = preamble cfg @
        [GetEnv, CreateFirstSupported CONTROLLER, Boot, CreateAllSupported EXTENSION,
         CreateFirstSupported PLAYER]\<rparr>"

definition loading ::
  "Config \<Rightarrow> Env \<Rightarrow> Module \<Rightarrow> Module list \<Rightarrow> Module \<Rightarrow> Format option \<Rightarrow> Module \<Rightarrow> Instance" where
  "loading cfg e c es p fmt m =
     (selecting cfg e c es p)
       \<lparr>media := Some m, format := fmt,
        calls := calls (selecting cfg e c es p) @ [SelectMedia (sources cfg)]\<rparr>"

definition final_no_media :: "Config \<Rightarrow> Env \<Rightarrow> Module \<Rightarrow> Module list \<Rightarrow> Module \<Rightarrow> Instance" where
  "final_no_media cfg e c es p =
     (selecting cfg e c es p)
       \<lparr>calls := calls (selecting cfg e c es p) @
          [SelectMedia (sources cfg), Unload,
           Emit ERROR (Some (ErrorEventData
             \<lparr>code = NO_SUPPORTED_FORMAT_FOUND, underlyingError = None\<rparr>))]\<rparr>"

definition final_load_failed ::
  "Config \<Rightarrow> Env \<Rightarrow> Module \<Rightarrow> Module list \<Rightarrow> Module \<Rightarrow> Format option \<Rightarrow> Module \<Rightarrow> thrown \<Rightarrow> Instance" where
  "final_load_failed cfg e c es p fmt m cause =
     (loading cfg e c es p fmt m)
       \<lparr>calls := calls (loading cfg e c es p fmt m) @
          [Load, Unload,
           Emit ERROR (Some (ErrorEventData
             \<lparr>code = CONTROLLER_LOAD_FAILED, underlyingError = Some cause\<rparr>))]\<rparr>"

definition final_ready ::
  "Config \<Rightarrow> Env \<Rightarrow> Module \<Rightarrow> Module list \<Rightarrow> Module \<Rightarrow> Format option \<Rightarrow> Module \<Rightarrow> Instance" where
  "final_ready cfg e c es p fmt m =
     (loading cfg e c es p fmt m)
       \<lparr>calls := calls (loading cfg e c es p fmt m) @ [Load, Emit READY None] @
          (if autoplay cfg \<and> canAutoplay e then [Play] else [])\<rparr>"

definition start :: "Config \<Rightarrow> Instance \<times> status" where
  "start cfg = (constructor cfg, At AwaitPolyfills)"

text \<open>The references that are not null, in order; the events of one name in the log.\<close>

fun present :: "'a option list \<Rightarrow> 'a list" where
  "present [] = []"
| "present (None # xs) = present xs"
| "present (Some x # xs) = x # present xs"

fun emitted :: "Events \<Rightarrow> call \<Rightarrow> bool" where
  "emitted ev (Emit ev' d) = (ev = ev')"
| "emitted ev c = False"

text \<open>
  Four concrete worlds: one where every promise is resolved, one where the selector finds
  no media, one where the load of the controller is rejected, and one where the promise
  of the selector itself is rejected.
\<close>

definition demo_controller :: Module where
  "demo_controller = \<lparr>name = ''BaseController'', ident = 1\<rparr>"

definition demo_player :: Module where
  "demo_player = \<lparr>name = ''HTML5Player'', ident = 2\<rparr>"

definition demo_media :: Module where
  "demo_media = \<lparr>name = ''BaseMedia'', ident = 3\<rparr>"

definition demo_extension :: Module where
  "demo_extension = \<lparr>name = ''StateExtension'', ident = 4\<rparr>"

definition demo_format :: Format where
  "demo_format = \<lparr>type_hint = ''mp4'', src = ''movie.mp4''\<rparr>"

definition demo_config :: Config where
  "demo_config = \<lparr>sources = [demo_format], autoplay = True, ignorePolyfills = False\<rparr>"

definition world_ok :: World where
  "world_ok =
     \<lparr>import_polyfills = Inr (),
      getEnv = Inr \<lparr>canAutoplay = True\<rparr>,
      createFirstSupported =
        (\<lambda>t. if t = CONTROLLER then Inr demo_controller
             else if t = PLAYER then Inr demo_player
             else Inl (Reason ''no supported module'')),
      createAllSupported = (\<lambda>t. Inr [demo_extension]),
      selectMedia = (\<lambda>srcs. Inr (Some demo_format, Some demo_media)),
      boot = (\<lambda>c. Inr ()),
      load = (\<lambda>c. Inr ())\<rparr>"

definition world_no_media :: World where
  "world_no_media = world_ok\<lparr>selectMedia := (\<lambda>srcs. Inr (None, None))\<rparr>"

definition world_load_fails :: World where
  "world_load_fails = world_ok\<lparr>load := (\<lambda>c. Inl (Reason ''manifest not found''))\<rparr>"

definition world_selector_rejects :: World where
  "world_selector_rejects = world_ok\<lparr>selectMedia := (\<lambda>srcs. Inl (Reason ''probe failed''))\<rparr>"

text \<open>
  The calls that \<^verbatim>\<open>init\<close> awaits, the call awaited at each stage, and the calls an
  undisturbed run makes in all (\<open>plan\<close>) and before a given stage (\<open>done_before\<close>).
\<close>

fun awaited :: "call \<Rightarrow> bool" where
  "awaited ImportPolyfills = True"
| "awaited GetEnv = True"
| "awaited (CreateFirstSupported t) = True"
| "awaited (CreateAllSupported t) = True"
| "awaited (SelectMedia srcs) = True"
| "awaited Boot = True"
| "awaited Load = True"
| "awaited c = False"

fun awaited_at :: "Config \<Rightarrow> stage \<Rightarrow> call list" where
  "awaited_at cfg AwaitPolyfills = (if ignorePolyfills cfg then [] else [ImportPolyfills])"
| "awaited_at cfg AwaitEnv = [GetEnv]"
| "awaited_at cfg AwaitController = [CreateFirstSupported CONTROLLER]"
| "awaited_at cfg AwaitBoot = [Boot]"
| "awaited_at cfg AwaitExtensions = [CreateAllSupported EXTENSION]"
| "awaited_at cfg AwaitPlayer = [CreateFirstSupported PLAYER]"
| "awaited_at cfg AwaitMedia = [SelectMedia (sources cfg)]"
| "awaited_at cfg AwaitLoad = [Load]"

definition stages :: "stage list" where
  "stages =
     [AwaitPolyfills, AwaitEnv, AwaitController, AwaitBoot, AwaitExtensions, AwaitPlayer,
      AwaitMedia, AwaitLoad]"

definition plan :: "Config \<Rightarrow> call list" where
  "plan cfg = concat (map (awaited_at cfg) stages)"

definition done_before :: "Config \<Rightarrow> stage \<Rightarrow> call list" where
  "done_before cfg st = concat (map (awaited_at cfg) (take (rank st) stages))"

text \<open>
  The configurations an instance can be in. Between two \<^verbatim>\<open>await\<close>s of \<^verbatim>\<open>init\<close>, and after
  \<^verbatim>\<open>init\<close> has ended, the host page and the modules may call the public methods of the
  instance, any number of times and with any arguments; such a call leaves the control
  of \<^verbatim>\<open>init\<close> where it stands. A step makes an awaited call and settles its promise at
  once, so a public call is placed before the awaited call of a stage or after its
  settlement; a public call made while the promise is pending is not a configuration of
  its own here.
\<close>

inductive reachable :: "World \<Rightarrow> Config \<Rightarrow> Instance \<times> status \<Rightarrow> bool" for w cfg where
  constructed: "reachable w cfg (constructor cfg, At AwaitPolyfills)"
| resumed: "reachable w cfg c \<Longrightarrow> reachable w cfg (step w c)"
| called_play: "reachable w cfg (s, st) \<Longrightarrow> reachable w cfg (fst (play s), st)"
| called_pause: "reachable w cfg (s, st) \<Longrightarrow> reachable w cfg (fst (pause s), st)"
| called_seekTo: "reachable w cfg (s, st) \<Longrightarrow> reachable w cfg (fst (seekTo time s), st)"
| called_setVolume: "reachable w cfg (s, st) \<Longrightarrow> reachable w cfg (fst (setVolume volume s), st)"
| called_setError: "reachable w cfg (s, st) \<Longrightarrow> reachable w cfg (fst (setError err s), st)"
| called_emit: "reachable w cfg (s, st) \<Longrightarrow> reachable w cfg (emit ev data s, st)"
| called_destroy: "reachable w cfg (s, st) \<Longrightarrow> reachable w cfg (fst (destroy s), st)"

text \<open>
  Modelled from the spec: the media selector returns a (format, media) pair or the
  not-found sentinel, so a media never comes without its format.
\<close>

definition pairs_honoured :: "World \<Rightarrow> Config \<Rightarrow> bool" where
  "pairs_honoured w cfg =
     (case selectMedia w (sources cfg) of
        Inl e \<Rightarrow> True
      | Inr (fmt, med) \<Rightarrow> med = None \<or> fmt \<noteq> None)"

text \<open>The two invariants of the reachable configurations that the proofs carry.\<close>

definition in_order :: "World \<Rightarrow> Config \<Rightarrow> Instance \<times> status \<Rightarrow> bool" where
  "in_order w cfg c =
     (config (fst c) = cfg \<and>
      (case controller (fst c) of
         None \<Rightarrow> True
       | Some c' \<Rightarrow> createFirstSupported w CONTROLLER = Inr c') \<and>
      prefix (filter awaited (calls (fst c))) (plan cfg) \<and>
      (case snd c of
         At st \<Rightarrow> filter awaited (calls (fst c)) = done_before cfg st \<and> reaches w cfg st
       | _ \<Rightarrow> True))"

definition paired :: "World \<Rightarrow> Config \<Rightarrow> Instance \<Rightarrow> bool" where
  "paired w cfg s =
     (config s = cfg \<and>
      (format s = None \<and> media s = None \<or>
       selectMedia w (sources cfg) = Inr (format s, media s) \<and> media s \<noteq> None))"

section \<open>Running a bootstrap\<close>

lemmas ops = invoke_def emit_def play_def pause_def seekTo_def setVolume_def setError_def
  Instance_canAutoplay_def returns_def try_load_def

lemmas demo = demo_controller_def demo_player_def demo_media_def demo_extension_def
  demo_format_def demo_config_def world_ok_def world_no_media_def world_load_fails_def
  world_selector_rejects_def

lemma run_numeral: "run (numeral k) w c = run (pred_numeral k) w (step w c)"
  by (simp add: numeral_eq_Suc)

lemma run_settled:
  "run k w (s, Ready) = (s, Ready)"
  "run k w (s, Error) = (s, Error)"
  "run k w (s, Rejected e) = (s, Rejected e)"
  by (induction k) simp_all

lemma run_add: "run (a + b) w c = run b w (run a w c)"
  by (induction a arbitrary: c) simp_all

text \<open>
  Eight steps are enough from any instance: every step that does not end \<^verbatim>\<open>init\<close> moves
  control to the next \<^verbatim>\<open>await\<close>, and there are eight of them.
\<close>

lemma rank_le: "rank st \<le> 7"
  by (cases st) simp_all

lemma step_progress:
  assumes "snd (step w (s, At st)) = At st'"
  shows "rank st' = Suc (rank st)"
  using assms
  by (cases st)
    (auto simp: ops Let_def split: sum.splits option.splits bool.splits if_splits prod.splits)

lemma run_settles:
  assumes "8 \<le> rank st + k"
  shows "snd (run k w (s, At st)) \<noteq> At st'"
  using assms
proof (induction k arbitrary: s st)
  case 0
  with rank_le [of st] show ?case by simp
next
  case (Suc k)
  obtain s1 x where sx: "step w (s, At st) = (s1, x)"
    by (cases "step w (s, At st)")
  show ?case
  proof (cases x)
    case (At st1)
    with sx step_progress [of w s st st1] have "rank st1 = Suc (rank st)"
      by simp
    with Suc.prems have "8 \<le> rank st1 + k"
      by simp
    from Suc.IH [OF this] sx At show ?thesis
      by simp
  qed (use sx in \<open>simp_all add: run_settled\<close>)
qed

lemma init_settles: "snd (init w s) \<noteq> At st"
  unfolding init_def by (rule run_settles) simp

lemma not_isl_iff: "\<not> isl x \<longleftrightarrow> (\<exists>y. x = Inr y)"
  by (cases x) simp_all

lemma reach_media:
  assumes "reaches w cfg AwaitMedia"
  shows "\<exists>e c es p.
     getEnv w = Inr e \<and> createFirstSupported w CONTROLLER = Inr c \<and> boot w c = Inr () \<and>
     createAllSupported w EXTENSION = Inr es \<and> createFirstSupported w PLAYER = Inr p \<and>
     run 6 w (start cfg) = (selecting cfg e c es p, At AwaitMedia)"
proof -
  from assms obtain e c es p where w:
    "ignorePolyfills cfg \<or> (\<exists>u. import_polyfills w = Inr u)"
    "getEnv w = Inr e" "createFirstSupported w CONTROLLER = Inr c" "boot w c = Inr ()"
    "createAllSupported w EXTENSION = Inr es" "createFirstSupported w PLAYER = Inr p"
    by (auto simp: not_isl_iff)
  have "run 6 w (start cfg) = (selecting cfg e c es p, At AwaitMedia)"
    using w by (auto simp: start_def constructor_def selecting_def preamble_def run_numeral invoke_def)
  with w show ?thesis by blast
qed

lemma miss_media:
  assumes "\<not> reaches w cfg AwaitMedia"
  shows "\<exists>e. snd (run 6 w (start cfg)) = Rejected e"
  using assms
  by (auto simp: start_def constructor_def run_numeral run_settled invoke_def not_isl_iff
      split: sum.splits)


lemma bootstrap_eq: "bootstrap w cfg = step w (step w (run 6 w (start cfg)))"
proof -
  have "run 8 w (start cfg) = run 2 w (run 6 w (start cfg))"
    using run_add [of 6 2 w "start cfg"] by simp
  then show ?thesis
    by (simp add: bootstrap_def init_def start_def run_numeral)
qed

lemma step_media_none:
  assumes "selectMedia w (sources cfg) = Inr (fmt, None)"
  shows "step w (selecting cfg e c es p, At AwaitMedia) = (final_no_media cfg e c es p, Error)"
  using assms by (simp add: selecting_def final_no_media_def ops)

lemma step_media_some:
  assumes "selectMedia w (sources cfg) = Inr (fmt, Some m)"
  shows "step w (selecting cfg e c es p, At AwaitMedia) =
    (loading cfg e c es p fmt m, At AwaitLoad)"
  using assms by (simp add: selecting_def loading_def ops)

lemma step_media_rejects:
  assumes "selectMedia w (sources cfg) = Inl x"
  shows "snd (step w (selecting cfg e c es p, At AwaitMedia)) = Rejected x"
  using assms by (simp add: selecting_def ops)

lemma step_load_rejected:
  assumes "load w c = Inl cause"
  shows "step w (loading cfg e c es p fmt m, At AwaitLoad) =
    (final_load_failed cfg e c es p fmt m cause, Error)"
  using assms by (simp add: selecting_def loading_def final_load_failed_def ops)

lemma step_load_ok:
  assumes "load w c = Inr u"
  shows "step w (loading cfg e c es p fmt m, At AwaitLoad) =
    (final_ready cfg e c es p fmt m, Ready)"
  using assms by (simp add: selecting_def loading_def final_ready_def ops Let_def)

text \<open>
  \<open>reaches\<close> is what the code does: control gets to the media selection, and to the load
  of the controller, exactly when \<open>reaches\<close> says so.
\<close>

lemma reaches_media_iff:
  "reaches w cfg AwaitMedia \<longleftrightarrow> snd (run 6 w (start cfg)) = At AwaitMedia"
proof
  assume "reaches w cfg AwaitMedia"
  from reach_media [OF this] show "snd (run 6 w (start cfg)) = At AwaitMedia"
    by auto
next
  assume a: "snd (run 6 w (start cfg)) = At AwaitMedia"
  show "reaches w cfg AwaitMedia"
  proof (rule ccontr)
    assume "\<not> reaches w cfg AwaitMedia"
    from miss_media [OF this] a show False by simp
  qed
qed

lemma reaches_load_iff:
  "reaches w cfg AwaitLoad \<longleftrightarrow> snd (run 7 w (start cfg)) = At AwaitLoad"
proof -
  have r7: "run 7 w (start cfg) = step w (run 6 w (start cfg))"
    using run_add [of 6 1 w "start cfg"] by simp
  show ?thesis
  proof (cases "reaches w cfg AwaitMedia")
    case True
    from reach_media [OF True] obtain e c es p
      where r6: "run 6 w (start cfg) = (selecting cfg e c es p, At AwaitMedia)"
      by blast
    from True show ?thesis
      unfolding r7 r6
      by (auto simp: selecting_def ops Let_def split: sum.splits option.splits)
  next
    case False
    from miss_media [OF False] obtain x s6 where "run 6 w (start cfg) = (s6, Rejected x)"
      by (cases "run 6 w (start cfg)") auto
    then have "snd (run 7 w (start cfg)) = Rejected x"
      by (simp add: r7)
    moreover from False have "\<not> reaches w cfg AwaitLoad"
      by (auto simp only: reaches.simps)
    ultimately show ?thesis
      by simp
  qed
qed

lemma bootstrap_cases [case_names Ready NoMedia LoadFailed Rejected]:
  obtains
    (Ready) e c es p fmt m where
      "reaches w cfg AwaitLoad" "getEnv w = Inr e" "createFirstSupported w CONTROLLER = Inr c"
      "createAllSupported w EXTENSION = Inr es" "createFirstSupported w PLAYER = Inr p"
      "selectMedia w (sources cfg) = Inr (fmt, Some m)" "load w c = Inr ()"
      "bootstrap w cfg = (final_ready cfg e c es p fmt m, Ready)"
  | (NoMedia) e c es p fmt where
      "reaches w cfg AwaitMedia" "getEnv w = Inr e" "createFirstSupported w CONTROLLER = Inr c"
      "createAllSupported w EXTENSION = Inr es" "createFirstSupported w PLAYER = Inr p"
      "selectMedia w (sources cfg) = Inr (fmt, None)"
      "bootstrap w cfg = (final_no_media cfg e c es p, Error)"
  | (LoadFailed) e c es p fmt m cause where
      "reaches w cfg AwaitLoad" "getEnv w = Inr e" "createFirstSupported w CONTROLLER = Inr c"
      "createAllSupported w EXTENSION = Inr es" "createFirstSupported w PLAYER = Inr p"
      "selectMedia w (sources cfg) = Inr (fmt, Some m)" "load w c = Inl cause"
      "bootstrap w cfg = (final_load_failed cfg e c es p fmt m cause, Error)"
  | (Rejected) x where
      "\<not> reaches w cfg AwaitMedia \<or> isl (selectMedia w (sources cfg))"
      "snd (bootstrap w cfg) = Rejected x"
proof (cases "reaches w cfg AwaitMedia")
  case False
  from miss_media [OF False] obtain x where "snd (run 6 w (start cfg)) = Rejected x" ..
  then obtain s6 where "run 6 w (start cfg) = (s6, Rejected x)"
    by (cases "run 6 w (start cfg)") simp
  then have "snd (bootstrap w cfg) = Rejected x"
    by (simp add: bootstrap_eq)
  with False show ?thesis using Rejected by blast
next
  case True
  from reach_media [OF True] obtain e c es p where r:
    "getEnv w = Inr e" "createFirstSupported w CONTROLLER = Inr c" "boot w c = Inr ()"
    "createAllSupported w EXTENSION = Inr es" "createFirstSupported w PLAYER = Inr p"
    and r6: "run 6 w (start cfg) = (selecting cfg e c es p, At AwaitMedia)"
    by blast
  show ?thesis
  proof (cases "selectMedia w (sources cfg)")
    case (Inl x)
    then have "snd (bootstrap w cfg) = Rejected x"
      using step_media_rejects [OF Inl, of e c es p]
      unfolding bootstrap_eq r6
      by (cases "step w (selecting cfg e c es p, At AwaitMedia)") simp
    with Inl show ?thesis using Rejected by simp
  next
    case (Inr pair)
    obtain fmt med where pair: "pair = (fmt, med)" by (cases pair)
    show ?thesis
    proof (cases med)
      case None
      with Inr pair have sel: "selectMedia w (sources cfg) = Inr (fmt, None)" by simp
      have "bootstrap w cfg = (final_no_media cfg e c es p, Error)"
        unfolding bootstrap_eq r6 step_media_none [OF sel] by simp
      with True r sel show ?thesis using NoMedia by blast
    next
      case (Some m)
      with Inr pair have sel: "selectMedia w (sources cfg) = Inr (fmt, Some m)" by simp
      with True have rl: "reaches w cfg AwaitLoad" by simp
      show ?thesis
      proof (cases "load w c")
        case (Inl cause)
        have "bootstrap w cfg = (final_load_failed cfg e c es p fmt m cause, Error)"
          unfolding bootstrap_eq r6 step_media_some [OF sel] step_load_rejected [OF Inl] ..
        with rl r sel Inl show ?thesis using LoadFailed by blast
      next
        case (Inr u)
        have "bootstrap w cfg = (final_ready cfg e c es p fmt m, Ready)"
          unfolding bootstrap_eq r6 step_media_some [OF sel] step_load_ok [OF Inr] ..
        with rl r sel Inr show ?thesis using Ready by simp
      qed
    qed
  qed
qed


text \<open>
  A rejection that \<^verbatim>\<open>init\<close> does not catch: the promise of \<^verbatim>\<open>init\<close> is rejected with the value
  of the first awaited promise that is rejected, \<^verbatim>\<open>selectMedia\<close> included (only \<^verbatim>\<open>load()\<close> is
  inside the \<^verbatim>\<open>try\<close>), and no event has been emitted.
\<close>

lemma miss_media_quiet:
  assumes "\<not> reaches w cfg AwaitMedia"
  shows "filter (emitted ev) (calls (fst (run 6 w (start cfg)))) = []"
  using assms
  by (auto simp: start_def constructor_def run_numeral run_settled invoke_def not_isl_iff
      split: sum.splits)

lemma step_media_rejects_state:
  assumes "selectMedia w (sources cfg) = Inl x"
  shows "step w (selecting cfg e c es p, At AwaitMedia) =
    (invoke (SelectMedia (sources cfg)) (selecting cfg e c es p), Rejected x)"
  using assms by (simp add: selecting_def ops)

lemma selector_rejects:
  assumes "reaches w cfg AwaitMedia" and "selectMedia w (sources cfg) = Inl x"
  shows "bootstrap w cfg =
    (invoke (SelectMedia (sources cfg))
       (fst (run 6 w (start cfg))), Rejected x)"
proof -
  from reach_media [OF assms(1)] obtain e c es p
    where r6: "run 6 w (start cfg) = (selecting cfg e c es p, At AwaitMedia)"
    by blast
  show ?thesis
    unfolding bootstrap_eq r6 step_media_rejects_state [OF assms(2)] by simp
qed

lemma bootstrap_rejected_quiet:
  assumes "snd (bootstrap w cfg) = Rejected x"
  shows "filter (emitted ev) (calls (fst (bootstrap w cfg))) = []"
proof (cases "reaches w cfg AwaitMedia")
  case False
  from miss_media [OF False] obtain y s6 where r6: "run 6 w (start cfg) = (s6, Rejected y)"
    by (cases "run 6 w (start cfg)") auto
  then have "bootstrap w cfg = (s6, Rejected y)"
    by (simp add: bootstrap_eq)
  with miss_media_quiet [OF False, of ev] r6 show ?thesis
    by simp
next
  case True
  from reach_media [OF True] obtain e c es p
    where r6: "run 6 w (start cfg) = (selecting cfg e c es p, At AwaitMedia)"
    by blast
  show ?thesis
  proof (cases rule: bootstrap_cases [of w cfg])
    case (Rejected y)
    with True obtain z where z: "selectMedia w (sources cfg) = Inl z"
      by (cases "selectMedia w (sources cfg)") auto
    from selector_rejects [OF True z] show ?thesis
      by (simp add: r6 selecting_def preamble_def invoke_def)
  qed (use assms in simp_all)
qed

section \<open>Failures that \<^verbatim>\<open>init\<close> handles, and the ready event\<close>

lemmas finals = selecting_def loading_def final_no_media_def final_load_failed_def
  final_ready_def preamble_def

text \<open>
  C3. When the bootstrap gets to the media selection and the selector answers with no
  media, \<^verbatim>\<open>init\<close> returns through \<^verbatim>\<open>setError\<close> (status \<open>Error\<close>); exactly one error event
  is emitted, and it carries \<^verbatim>\<open>NO_SUPPORTED_FORMAT_FOUND\<close> with no underlying error;
  \<^verbatim>\<open>controller.load()\<close> is never called and no ready event is emitted.
\<close>

theorem no_supported_format_found:
  assumes "reaches w cfg AwaitMedia" and "selectMedia w (sources cfg) = Inr (fmt, None)"
  shows "snd (bootstrap w cfg) = Error \<and>
     filter (emitted ERROR) (calls (fst (bootstrap w cfg))) =
       [Emit ERROR (Some (ErrorEventData
          \<lparr>code = NO_SUPPORTED_FORMAT_FOUND, underlyingError = None\<rparr>))] \<and>
     Load \<notin> set (calls (fst (bootstrap w cfg))) \<and>
     filter (emitted READY) (calls (fst (bootstrap w cfg))) = []"
proof -
  from reach_media [OF assms(1)] obtain e c es p
    where r6: "run 6 w (start cfg) = (selecting cfg e c es p, At AwaitMedia)"
    by blast
  have "bootstrap w cfg = (final_no_media cfg e c es p, Error)"
    unfolding bootstrap_eq r6 step_media_none [OF assms(2)] by simp
  then show ?thesis
    by (simp add: finals)
qed

theorem no_supported_format_found_witness:
  "reaches world_no_media demo_config AwaitMedia \<and>
   selectMedia world_no_media (sources demo_config) = Inr (None, None) \<and>
   snd (bootstrap world_no_media demo_config) = Error \<and>
   filter (emitted ERROR) (calls (fst (bootstrap world_no_media demo_config))) =
     [Emit ERROR (Some (ErrorEventData
        \<lparr>code = NO_SUPPORTED_FORMAT_FOUND, underlyingError = None\<rparr>))] \<and>
   Load \<notin> set (calls (fst (bootstrap world_no_media demo_config))) \<and>
   filter (emitted READY) (calls (fst (bootstrap world_no_media demo_config))) = []"
proof -
  have h1: "reaches world_no_media demo_config AwaitMedia"
    by (simp add: demo)
  have h2: "selectMedia world_no_media (sources demo_config) = Inr (None, None)"
    by (simp add: demo)
  from no_supported_format_found [OF h1 h2] h1 h2 show ?thesis
    by simp
qed

text \<open>
  C4. When the bootstrap gets to \<^verbatim>\<open>controller.load()\<close> and that promise is rejected with
  a cause, \<^verbatim>\<open>init\<close> returns through \<^verbatim>\<open>setError\<close> (status \<open>Error\<close>); exactly one error event
  is emitted, and it carries \<^verbatim>\<open>CONTROLLER_LOAD_FAILED\<close> wrapping that cause; the controller's
  \<^verbatim>\<open>unload()\<close> is called exactly once and no ready event is emitted.
\<close>

theorem controller_load_failed:
  assumes "reaches w cfg AwaitLoad"
    and "createFirstSupported w CONTROLLER = Inr c"
    and "load w c = Inl cause"
  shows "snd (bootstrap w cfg) = Error \<and>
     filter (emitted ERROR) (calls (fst (bootstrap w cfg))) =
       [Emit ERROR (Some (ErrorEventData
          \<lparr>code = CONTROLLER_LOAD_FAILED, underlyingError = Some cause\<rparr>))] \<and>
     filter (\<lambda>x. x = Unload) (calls (fst (bootstrap w cfg))) = [Unload] \<and>
     filter (emitted READY) (calls (fst (bootstrap w cfg))) = []"
proof (cases rule: bootstrap_cases [of w cfg])
  case (Ready e c' es p fmt m)
  with assms show ?thesis by simp
next
  case (NoMedia e c' es p fmt)
  with assms show ?thesis by simp
next
  case (LoadFailed e c' es p fmt m cause')
  with assms have "c' = c" "cause' = cause" by simp_all
  with LoadFailed show ?thesis by (simp add: finals)
next
  case (Rejected x)
  with assms show ?thesis by (auto split: sum.splits)
qed

theorem controller_load_failed_witness:
  "reaches world_load_fails demo_config AwaitLoad \<and>
   createFirstSupported world_load_fails CONTROLLER = Inr demo_controller \<and>
   load world_load_fails demo_controller = Inl (Reason ''manifest not found'') \<and>
   snd (bootstrap world_load_fails demo_config) = Error \<and>
   filter (emitted ERROR) (calls (fst (bootstrap world_load_fails demo_config))) =
     [Emit ERROR (Some (ErrorEventData
        \<lparr>code = CONTROLLER_LOAD_FAILED,
         underlyingError = Some (Reason ''manifest not found'')\<rparr>))] \<and>
   filter (\<lambda>x. x = Unload) (calls (fst (bootstrap world_load_fails demo_config))) =
     [Unload] \<and>
   filter (emitted READY) (calls (fst (bootstrap world_load_fails demo_config))) = []"
proof -
  have h1: "reaches world_load_fails demo_config AwaitLoad"
    by (simp add: demo)
  have h2: "createFirstSupported world_load_fails CONTROLLER = Inr demo_controller"
    by (simp add: demo)
  have h3: "load world_load_fails demo_controller = Inl (Reason ''manifest not found'')"
    by (simp add: demo)
  from controller_load_failed [OF h1 h2 h3] h1 h2 h3 show ?thesis
    by simp
qed

text \<open>
  C5. After a successful bootstrap (status \<open>Ready\<close>) the controller's \<^verbatim>\<open>play()\<close> has been
  called if and only if \<^verbatim>\<open>config.autoplay\<close> and the \<^verbatim>\<open>canAutoplay\<close> flag of the environment
  snapshot are both true; when it is called, it is called once, as the last call, right
  after the ready event; otherwise the ready event is the last call.
\<close>

theorem autoplay_after_ready:
  assumes "bootstrap w cfg = (s, Ready)"
  shows "\<exists>e. env s = Some e \<and> getEnv w = Inr e \<and>
     (Play \<in> set (calls s) \<longleftrightarrow> autoplay cfg \<and> canAutoplay e) \<and>
     (\<exists>pre. calls s =
        pre @ Emit READY None # (if autoplay cfg \<and> canAutoplay e then [Play] else []) \<and>
        Play \<notin> set pre)"
proof (cases rule: bootstrap_cases [of w cfg])
  case (Ready e c es p fmt m)
  with assms have s: "s = final_ready cfg e c es p fmt m" by simp
  have "calls s = (preamble cfg @
        [GetEnv, CreateFirstSupported CONTROLLER, Boot, CreateAllSupported EXTENSION,
         CreateFirstSupported PLAYER, SelectMedia (sources cfg), Load]) @
        Emit READY None # (if autoplay cfg \<and> canAutoplay e then [Play] else [])"
    by (simp add: s finals)
  moreover have "Play \<notin> set (preamble cfg @
        [GetEnv, CreateFirstSupported CONTROLLER, Boot, CreateAllSupported EXTENSION,
         CreateFirstSupported PLAYER, SelectMedia (sources cfg), Load])"
    by (simp add: preamble_def)
  moreover have "env s = Some e"
    by (simp add: s finals)
  moreover have "Play \<in> set (calls s) \<longleftrightarrow> autoplay cfg \<and> canAutoplay e"
    by (simp add: s finals)
  ultimately show ?thesis using Ready(2) by blast
qed (use assms in simp_all)

theorem autoplay_after_ready_witness:
  "bootstrap world_ok demo_config = (fst (bootstrap world_ok demo_config), Ready) \<and>
   (\<exists>e. env (fst (bootstrap world_ok demo_config)) = Some e \<and> getEnv world_ok = Inr e \<and>
     (Play \<in> set (calls (fst (bootstrap world_ok demo_config))) \<longleftrightarrow>
        autoplay demo_config \<and> canAutoplay e) \<and>
     (\<exists>pre. calls (fst (bootstrap world_ok demo_config)) =
        pre @ Emit READY None # (if autoplay demo_config \<and> canAutoplay e then [Play] else []) \<and>
        Play \<notin> set pre))"
proof -
  have h: "bootstrap world_ok demo_config = (fst (bootstrap world_ok demo_config), Ready)"
    by (simp add: bootstrap_def init_def constructor_def run_numeral ops demo)
  from autoplay_after_ready [OF h] h show ?thesis
    by blast
qed

text \<open>
  C6 (amended). A successful bootstrap (status \<open>Ready\<close>) emits exactly one ready event and
  no error event. A bootstrap that fails at the media selection because the selector
  answers with no media, or at the load of the controller because \<^verbatim>\<open>controller.load()\<close> is
  rejected, ends in \<open>Error\<close>; every bootstrap that ends in \<open>Error\<close> emits exactly one error
  event and no ready event. A bootstrap that fails at the media selection because the
  promise of \<^verbatim>\<open>selectMedia\<close> is rejected is not caught: the promise of \<^verbatim>\<open>init\<close> is rejected with
  the same value; a bootstrap whose promise is rejected emits no error event and no ready
  event.
\<close>

theorem ready_and_error_events:
  "(snd (bootstrap w cfg) = Ready \<longrightarrow>
      filter (emitted READY) (calls (fst (bootstrap w cfg))) = [Emit READY None] \<and>
      filter (emitted ERROR) (calls (fst (bootstrap w cfg))) = []) \<and>
   (reaches w cfg AwaitMedia \<and> selectMedia w (sources cfg) = Inr (fmt, None) \<or>
    reaches w cfg AwaitLoad \<and> createFirstSupported w CONTROLLER = Inr c \<and>
      load w c = Inl cause \<longrightarrow>
      snd (bootstrap w cfg) = Error \<and>
      length (filter (emitted ERROR) (calls (fst (bootstrap w cfg)))) = 1 \<and>
      filter (emitted READY) (calls (fst (bootstrap w cfg))) = []) \<and>
   (snd (bootstrap w cfg) = Error \<longrightarrow>
      length (filter (emitted ERROR) (calls (fst (bootstrap w cfg)))) = 1 \<and>
      filter (emitted READY) (calls (fst (bootstrap w cfg))) = []) \<and>
   (reaches w cfg AwaitMedia \<and> selectMedia w (sources cfg) = Inl x \<longrightarrow>
      snd (bootstrap w cfg) = Rejected x) \<and>
   (snd (bootstrap w cfg) = Rejected y \<longrightarrow>
      filter (emitted ERROR) (calls (fst (bootstrap w cfg))) = [] \<and>
      filter (emitted READY) (calls (fst (bootstrap w cfg))) = [])"
proof -
  have rejected: "reaches w cfg AwaitMedia \<and> selectMedia w (sources cfg) = Inl x \<longrightarrow>
      snd (bootstrap w cfg) = Rejected x"
    using selector_rejects [of w cfg x] by simp
  have quiet: "snd (bootstrap w cfg) = Rejected y \<longrightarrow>
      filter (emitted ERROR) (calls (fst (bootstrap w cfg))) = [] \<and>
      filter (emitted READY) (calls (fst (bootstrap w cfg))) = []"
    using bootstrap_rejected_quiet [of w cfg y] by simp
  have rest: "(snd (bootstrap w cfg) = Ready \<longrightarrow>
      filter (emitted READY) (calls (fst (bootstrap w cfg))) = [Emit READY None] \<and>
      filter (emitted ERROR) (calls (fst (bootstrap w cfg))) = []) \<and>
   (reaches w cfg AwaitMedia \<and> selectMedia w (sources cfg) = Inr (fmt, None) \<or>
    reaches w cfg AwaitLoad \<and> createFirstSupported w CONTROLLER = Inr c \<and>
      load w c = Inl cause \<longrightarrow>
      snd (bootstrap w cfg) = Error \<and>
      length (filter (emitted ERROR) (calls (fst (bootstrap w cfg)))) = 1 \<and>
      filter (emitted READY) (calls (fst (bootstrap w cfg))) = []) \<and>
   (snd (bootstrap w cfg) = Error \<longrightarrow>
      length (filter (emitted ERROR) (calls (fst (bootstrap w cfg)))) = 1 \<and>
      filter (emitted READY) (calls (fst (bootstrap w cfg))) = [])"
  proof (cases rule: bootstrap_cases [of w cfg])
    case (Ready e c' es p fmt' m)
    then show ?thesis by (auto simp: finals)
  next
    case (NoMedia e c' es p fmt')
    then show ?thesis by (auto simp: finals)
  next
    case (LoadFailed e c' es p fmt' m cause')
    then show ?thesis by (auto simp: finals)
  next
    case (Rejected z)
    then show ?thesis by (auto split: sum.splits)
  qed
  from rest rejected quiet show ?thesis
    by blast
qed

text \<open>
  C6 as stated fails: when the promise of \<^verbatim>\<open>selectMedia\<close> is rejected, the bootstrap fails
  at the media selection and no error event is emitted.
\<close>

theorem ready_and_error_events_counterexample:
  "reaches world_selector_rejects demo_config AwaitMedia \<and>
   selectMedia world_selector_rejects (sources demo_config) = Inl (Reason ''probe failed'') \<and>
   snd (bootstrap world_selector_rejects demo_config) = Rejected (Reason ''probe failed'') \<and>
   length (filter (emitted ERROR)
     (calls (fst (bootstrap world_selector_rejects demo_config)))) \<noteq> 1 \<and>
   filter (emitted ERROR) (calls (fst (bootstrap world_selector_rejects demo_config))) = []"
  by (simp add: bootstrap_def init_def constructor_def run_numeral ops demo)

theorem ready_and_error_events_witness:
  "snd (bootstrap world_ok demo_config) = Ready \<and>
   filter (emitted READY) (calls (fst (bootstrap world_ok demo_config))) = [Emit READY None] \<and>
   filter (emitted ERROR) (calls (fst (bootstrap world_ok demo_config))) = [] \<and>
   reaches world_no_media demo_config AwaitMedia \<and>
   selectMedia world_no_media (sources demo_config) = Inr (None, None) \<and>
   snd (bootstrap world_no_media demo_config) = Error \<and>
   length (filter (emitted ERROR) (calls (fst (bootstrap world_no_media demo_config)))) = 1 \<and>
   filter (emitted READY) (calls (fst (bootstrap world_no_media demo_config))) = [] \<and>
   reaches world_load_fails demo_config AwaitLoad \<and>
   createFirstSupported world_load_fails CONTROLLER = Inr demo_controller \<and>
   load world_load_fails demo_controller = Inl (Reason ''manifest not found'') \<and>
   snd (bootstrap world_load_fails demo_config) = Error \<and>
   length (filter (emitted ERROR) (calls (fst (bootstrap world_load_fails demo_config)))) = 1 \<and>
   filter (emitted READY) (calls (fst (bootstrap world_load_fails demo_config))) = [] \<and>
   reaches world_selector_rejects demo_config AwaitMedia \<and>
   selectMedia world_selector_rejects (sources demo_config) = Inl (Reason ''probe failed'') \<and>
   snd (bootstrap world_selector_rejects demo_config) = Rejected (Reason ''probe failed'') \<and>
   filter (emitted ERROR) (calls (fst (bootstrap world_selector_rejects demo_config))) = [] \<and>
   filter (emitted READY) (calls (fst (bootstrap world_selector_rejects demo_config))) = []"
proof -
  have h1: "snd (bootstrap world_ok demo_config) = Ready"
    by (simp add: bootstrap_def init_def constructor_def run_numeral ops demo)
  have h2: "reaches world_no_media demo_config AwaitMedia \<and>
      selectMedia world_no_media (sources demo_config) = Inr (None, None)"
    by (simp add: demo)
  have h3: "reaches world_load_fails demo_config AwaitLoad \<and>
      createFirstSupported world_load_fails CONTROLLER = Inr demo_controller \<and>
      load world_load_fails demo_controller = Inl (Reason ''manifest not found'')"
    by (simp add: demo)
  have h4: "reaches world_selector_rejects demo_config AwaitMedia \<and>
      selectMedia world_selector_rejects (sources demo_config) = Inl (Reason ''probe failed'')"
    by (simp add: demo)
  have a: "filter (emitted READY) (calls (fst (bootstrap world_ok demo_config))) =
        [Emit READY None] \<and>
      filter (emitted ERROR) (calls (fst (bootstrap world_ok demo_config))) = []"
    using ready_and_error_events [where w = world_ok and cfg = demo_config] h1 by blast
  have b: "snd (bootstrap world_no_media demo_config) = Error \<and>
      length (filter (emitted ERROR)
        (calls (fst (bootstrap world_no_media demo_config)))) = 1 \<and>
      filter (emitted READY) (calls (fst (bootstrap world_no_media demo_config))) = []"
    using ready_and_error_events [where w = world_no_media and cfg = demo_config] h2
    by blast
  have c: "snd (bootstrap world_load_fails demo_config) = Error \<and>
      length (filter (emitted ERROR)
        (calls (fst (bootstrap world_load_fails demo_config)))) = 1 \<and>
      filter (emitted READY) (calls (fst (bootstrap world_load_fails demo_config))) = []"
    using ready_and_error_events [where w = world_load_fails and cfg = demo_config] h3
    by blast
  have d: "snd (bootstrap world_selector_rejects demo_config) =
      Rejected (Reason ''probe failed'')"
    using ready_and_error_events [where w = world_selector_rejects and cfg = demo_config
        and x = "Reason ''probe failed''"] h4
    by blast
  have e: "filter (emitted ERROR)
        (calls (fst (bootstrap world_selector_rejects demo_config))) = [] \<and>
      filter (emitted READY)
        (calls (fst (bootstrap world_selector_rejects demo_config))) = []"
    using ready_and_error_events [where w = world_selector_rejects and cfg = demo_config
        and y = "Reason ''probe failed''"] d
    by blast
  from h1 h2 h3 h4 a b c d e show ?thesis
    by blast
qed

section \<open>Teardown, lookup and playback\<close>

lemma removeChildren_empty: "removeChildren xs = []"
  by (induction xs) simp_all

lemma destroy_resolved:
  assumes "controller s = Some c"
  shows "destroy s =
    (s\<lparr>controller := None, player := None, format := None, media := None,
       container := Element (classList (container s)) [], mounted := False,
       calls := calls s @ [Emit DESTROY None, RemoveAllListeners, Unload]\<rparr>, None)"
  using assms by (simp add: destroy_def ops Let_def removeChildren_empty)

lemma destroy_unresolved:
  assumes "controller s = None"
  shows "destroy s =
    (s\<lparr>calls := calls s @ [Emit DESTROY None, RemoveAllListeners]\<rparr>,
     Some (TypeError ''this.controller.unload''))"
  using assms by (simp add: destroy_def ops Let_def)

lemma find_name_present: "find_name ms n = find (\<lambda>m. name m = n) (present ms)"
  by (induction ms n rule: find_name.induct) simp_all

lemma present_Some_append: "present (map Some es @ ms) = es @ present ms"
  by (induction es) simp_all

lemma bootstrap_world_ok:
  "bootstrap world_ok demo_config =
     (final_ready demo_config \<lparr>canAutoplay = True\<rparr> demo_controller [demo_extension]
        demo_player (Some demo_format) demo_media, Ready)"
  by (simp add: bootstrap_def init_def constructor_def run_numeral ops finals Let_def world_ok_def demo_config_def)

lemma bootstrap_world_no_media:
  "bootstrap world_no_media demo_config =
     (final_no_media demo_config \<lparr>canAutoplay = True\<rparr> demo_controller [demo_extension]
        demo_player, Error)"
  by (simp add: bootstrap_def init_def constructor_def run_numeral ops finals Let_def world_ok_def world_no_media_def demo_config_def)

lemma bootstrap_world_load_fails:
  "bootstrap world_load_fails demo_config =
     (final_load_failed demo_config \<lparr>canAutoplay = True\<rparr> demo_controller [demo_extension]
        demo_player (Some demo_format) demo_media (Reason ''manifest not found''), Error)"
  by (simp add: bootstrap_def init_def constructor_def run_numeral ops finals Let_def world_ok_def world_load_fails_def demo_config_def)

text \<open>
  C8 (amended). Once the extensions are resolved (\<^verbatim>\<open>this.extensions\<close> is set), for every
  name \<^verbatim>\<open>getModule(name)\<close> returns the first module of that name in the search order
  extensions (in their resolved order), controller, media, player, skipping the references
  that are null, and nothing when no such module exists. While the extensions are not
  resolved, \<^verbatim>\<open>getModule\<close> throws a \<^verbatim>\<open>TypeError\<close>.
\<close>

theorem getModule_first_match:
  "(extensions s = Some es \<longrightarrow>
      getModule n s =
        Inr (find (\<lambda>m. name m = n) (es @ present [controller s, media s, player s]))) \<and>
   (extensions s = None \<longrightarrow> getModule n s = Inl (TypeError ''...this.extensions''))"
  by (simp add: getModule_def find_name_present present_Some_append)

text \<open>
  C8 as stated fails on a fresh instance: no module is resolved, and \<^verbatim>\<open>getModule\<close> throws
  instead of returning nothing.
\<close>

theorem getModule_counterexample:
  "getModule ''BaseController'' (constructor demo_config) \<noteq> Inr None \<and>
   getModule ''BaseController'' (constructor demo_config) =
     Inl (TypeError ''...this.extensions'')"
  by (simp add: getModule_def constructor_def)

theorem getModule_first_match_witness:
  "extensions (fst (bootstrap world_ok demo_config)) = Some [demo_extension] \<and>
   getModule ''HTML5Player'' (fst (bootstrap world_ok demo_config)) = Inr (Some demo_player) \<and>
   extensions (constructor demo_config) = None \<and>
   getModule ''HTML5Player'' (constructor demo_config) = Inl (TypeError ''...this.extensions'')"
proof -
  let ?s = "fst (bootstrap world_ok demo_config)"
  have h1: "extensions ?s = Some [demo_extension]"
    by (simp add: bootstrap_world_ok finals)
  have f: "controller ?s = Some demo_controller" "media ?s = Some demo_media"
    "player ?s = Some demo_player"
    by (simp_all add: bootstrap_world_ok finals)
  have h2: "extensions (constructor demo_config) = None"
    by (simp add: constructor_def)
  from getModule_first_match [of ?s "[demo_extension]" "''HTML5Player''"] h1 f
  have a: "getModule ''HTML5Player'' ?s = Inr (Some demo_player)"
    by (simp add: demo)
  from getModule_first_match [of "constructor demo_config" "[]" "''HTML5Player''"] h2
  have b: "getModule ''HTML5Player'' (constructor demo_config) =
      Inl (TypeError ''...this.extensions'')"
    by blast
  from h1 a h2 b show ?thesis by blast
qed

text \<open>
  C9 (amended). \<^verbatim>\<open>play\<close>, \<^verbatim>\<open>pause\<close>, \<^verbatim>\<open>seekTo\<close> and \<^verbatim>\<open>setVolume\<close> called while the controller
  reference is null (on a fresh instance, or after a \<^verbatim>\<open>destroy()\<close> that returned) throw a
  \<^verbatim>\<open>TypeError\<close> and leave every field and the call log as they were; called while a
  controller is set, they delegate to it.
\<close>

theorem playback_without_controller:
  "(controller s = None \<longrightarrow>
      play s = (s, Some (TypeError ''this.controller.play'')) \<and>
      pause s = (s, Some (TypeError ''this.controller.pause'')) \<and>
      seekTo time s = (s, Some (TypeError ''this.controller.seekTo'')) \<and>
      setVolume volume s = (s, Some (TypeError ''this.controller.setVolume''))) \<and>
   (controller s \<noteq> None \<longrightarrow>
      play s = (invoke Play s, None) \<and>
      pause s = (invoke Pause s, None) \<and>
      seekTo time s = (invoke (SeekTo time) s, None) \<and>
      setVolume volume s = (invoke (SetVolume volume) s, None)) \<and>
   controller (constructor cfg) = None \<and>
   (snd (destroy s) = None \<longrightarrow> controller (fst (destroy s)) = None)"
  by (auto simp: ops constructor_def destroy_def Let_def split: option.splits)

text \<open>
  C9 as stated fails: after \<^verbatim>\<open>destroy()\<close>, and on a fresh instance, \<^verbatim>\<open>play()\<close> is neither a
  no-op nor a labelled misuse condition; the runtime's \<^verbatim>\<open>TypeError\<close> escapes.
\<close>

theorem playback_counterexample:
  "snd (bootstrap world_ok demo_config) = Ready \<and>
   snd (destroy (fst (bootstrap world_ok demo_config))) = None \<and>
   snd (play (fst (destroy (fst (bootstrap world_ok demo_config))))) =
     Some (TypeError ''this.controller.play'') \<and>
   snd (play (constructor demo_config)) = Some (TypeError ''this.controller.play'')"
  by (simp add: bootstrap_world_ok finals destroy_def ops Let_def constructor_def)

theorem playback_without_controller_witness:
  "controller (constructor demo_config) = None \<and>
   play (constructor demo_config) =
     (constructor demo_config, Some (TypeError ''this.controller.play'')) \<and>
   seekTo 10 (constructor demo_config) =
     (constructor demo_config, Some (TypeError ''this.controller.seekTo'')) \<and>
   controller (fst (bootstrap world_ok demo_config)) \<noteq> None \<and>
   pause (fst (bootstrap world_ok demo_config)) =
     (invoke Pause (fst (bootstrap world_ok demo_config)), None) \<and>
   snd (destroy (fst (bootstrap world_ok demo_config))) = None \<and>
   controller (fst (destroy (fst (bootstrap world_ok demo_config)))) = None \<and>
   setVolume (1 / 2) (fst (destroy (fst (bootstrap world_ok demo_config)))) =
     (fst (destroy (fst (bootstrap world_ok demo_config))),
      Some (TypeError ''this.controller.setVolume''))"
proof -
  let ?r = "fst (bootstrap world_ok demo_config)"
  let ?d = "fst (destroy ?r)"
  have h1: "controller (constructor demo_config) = None"
    by (simp add: constructor_def)
  have h2: "controller ?r \<noteq> None"
    by (simp add: bootstrap_world_ok finals)
  have h3: "snd (destroy ?r) = None"
    by (simp add: bootstrap_world_ok finals destroy_def ops Let_def)
  from playback_without_controller [of ?r _ _ demo_config] h3
  have h4: "controller ?d = None" by blast
  from playback_without_controller [of "constructor demo_config" 10 _ demo_config] h1
  have a: "play (constructor demo_config) =
      (constructor demo_config, Some (TypeError ''this.controller.play''))"
    "seekTo 10 (constructor demo_config) =
      (constructor demo_config, Some (TypeError ''this.controller.seekTo''))"
    by blast+
  from playback_without_controller [of ?r _ _ demo_config] h2
  have b: "pause ?r = (invoke Pause ?r, None)" by blast
  from playback_without_controller [of ?d _ "1 / 2" demo_config] h4
  have c: "setVolume (1 / 2) ?d = (?d, Some (TypeError ''this.controller.setVolume''))"
    by blast
  from h1 h2 h3 h4 a b c show ?thesis by blast
qed


lemma final_fields:
  "controller (final_ready cfg e c es p fmt m) = Some c"
  "controller (final_no_media cfg e c es p) = Some c"
  "controller (final_load_failed cfg e c es p fmt m cause) = Some c"
  "player (final_ready cfg e c es p fmt m) = Some p"
  "player (final_no_media cfg e c es p) = Some p"
  "player (final_load_failed cfg e c es p fmt m cause) = Some p"
  "extensions (final_ready cfg e c es p fmt m) = Some es"
  "extensions (final_no_media cfg e c es p) = Some es"
  "extensions (final_load_failed cfg e c es p fmt m cause) = Some es"
  "media (final_ready cfg e c es p fmt m) = Some m"
  "media (final_no_media cfg e c es p) = None"
  "media (final_load_failed cfg e c es p fmt m cause) = Some m"
  "format (final_ready cfg e c es p fmt m) = fmt"
  "format (final_no_media cfg e c es p) = None"
  "format (final_load_failed cfg e c es p fmt m cause) = fmt"
  by (simp_all add: finals)

lemma settled_resolved:
  assumes "bootstrap w cfg = (s, st)" and "st = Ready \<or> st = Error"
  shows "\<exists>c p es. controller s = Some c \<and> player s = Some p \<and> extensions s = Some es \<and>
    createAllSupported w EXTENSION = Inr es"
proof (cases rule: bootstrap_cases [of w cfg])
  case (Rejected x)
  with assms show ?thesis by auto
qed (use assms in \<open>auto simp: final_fields\<close>)

text \<open>
  C1 (amended). For an instance whose bootstrap ended in \<open>Ready\<close> or \<open>Error\<close>, the first
  \<^verbatim>\<open>destroy()\<close> returns normally: it emits the destroy event, removes all listeners, unloads
  the controller and nulls controller, player, format and media. A second \<^verbatim>\<open>destroy()\<close>
  emits the destroy event and removes all listeners again, then throws a \<^verbatim>\<open>TypeError\<close> at
  \<^verbatim>\<open>this.controller.unload()\<close>, changing no field. After the first call, \<^verbatim>\<open>getModule(name)\<close>
  returns the first extension of that name, and nothing when no extension has it: the
  extensions are not released.
\<close>

theorem destroy_twice:
  assumes "bootstrap w cfg = (s, st)" and "st = Ready \<or> st = Error"
  shows "\<exists>s1 es.
     destroy s = (s1, None) \<and>
     controller s1 = None \<and> player s1 = None \<and> format s1 = None \<and> media s1 = None \<and>
     calls s1 = calls s @ [Emit DESTROY None, RemoveAllListeners, Unload] \<and>
     destroy s1 =
       (s1\<lparr>calls := calls s1 @ [Emit DESTROY None, RemoveAllListeners]\<rparr>,
        Some (TypeError ''this.controller.unload'')) \<and>
     extensions s1 = Some es \<and> createAllSupported w EXTENSION = Inr es \<and>
     (\<forall>n. getModule n s1 = Inr (find (\<lambda>m. name m = n) es))"
proof -
  from settled_resolved [OF assms] obtain c p es where
    r: "controller s = Some c" "extensions s = Some es" "createAllSupported w EXTENSION = Inr es"
    by blast
  define s1 where "s1 = fst (destroy s)"
  have d: "destroy s = (s1, None)"
    by (simp add: s1_def destroy_resolved [OF r(1)])
  have f: "controller s1 = None" "player s1 = None" "format s1 = None" "media s1 = None"
    "extensions s1 = Some es"
    "calls s1 = calls s @ [Emit DESTROY None, RemoveAllListeners, Unload]"
    by (simp_all add: s1_def destroy_resolved [OF r(1)] r)
  have g: "\<forall>n. getModule n s1 = Inr (find (\<lambda>m. name m = n) es)"
    by (simp add: getModule_def f find_name_present present_Some_append)
  from d f g r(3) destroy_unresolved [OF f(1)] show ?thesis
    by blast
qed

text \<open>
  C1 as stated fails: the second \<^verbatim>\<open>destroy()\<close> throws, and after the first one \<^verbatim>\<open>getModule\<close>
  still finds an extension.
\<close>

theorem destroy_twice_counterexample:
  "snd (bootstrap world_ok demo_config) = Ready \<and>
   snd (destroy (fst (bootstrap world_ok demo_config))) = None \<and>
   snd (destroy (fst (destroy (fst (bootstrap world_ok demo_config))))) =
     Some (TypeError ''this.controller.unload'') \<and>
   getModule ''StateExtension'' (fst (destroy (fst (bootstrap world_ok demo_config)))) =
     Inr (Some demo_extension)"
  unfolding bootstrap_world_ok
  by (simp add: finals destroy_def ops Let_def getModule_def demo)

theorem destroy_twice_witness:
  "bootstrap world_load_fails demo_config = (fst (bootstrap world_load_fails demo_config), Error) \<and>
   (\<exists>s1 es.
     destroy (fst (bootstrap world_load_fails demo_config)) = (s1, None) \<and>
     controller s1 = None \<and> player s1 = None \<and> format s1 = None \<and> media s1 = None \<and>
     calls s1 = calls (fst (bootstrap world_load_fails demo_config)) @
       [Emit DESTROY None, RemoveAllListeners, Unload] \<and>
     destroy s1 =
       (s1\<lparr>calls := calls s1 @ [Emit DESTROY None, RemoveAllListeners]\<rparr>,
        Some (TypeError ''this.controller.unload'')) \<and>
     extensions s1 = Some es \<and> createAllSupported world_load_fails EXTENSION = Inr es \<and>
     (\<forall>n. getModule n s1 = Inr (find (\<lambda>m. name m = n) es)))"
proof -
  have h: "bootstrap world_load_fails demo_config =
      (fst (bootstrap world_load_fails demo_config), Error)"
    by (simp add: bootstrap_world_load_fails)
  have "Error = Ready \<or> Error = Error" by simp
  from destroy_twice [OF h this] h show ?thesis
    by blast
qed

text \<open>
  C2 (amended). When a bootstrap ends in \<open>Ready\<close>, controller, player and media are non-null
  and (format, media) is the pair the media selector returned, so that the format is
  non-null too, the selector returning a media only with its format. When it ends in
  \<open>Error\<close>, the controller has been unloaded and the error event emitted, and the
  controller and the player are still referenced; media and format are null when the
  failure was at the media selection, and are still referenced (the selector's pair,
  hence both non-null) when the failure was at \<^verbatim>\<open>controller.load()\<close>. After \<^verbatim>\<open>destroy()\<close> from
  \<open>Ready\<close> or \<open>Error\<close>, which returns normally, controller, player, media and format are
  null.
\<close>

theorem lifecycle_references:
  assumes "bootstrap w cfg = (s, st)"
  shows "(st = Ready \<longrightarrow>
      controller s \<noteq> None \<and> player s \<noteq> None \<and> media s \<noteq> None \<and>
      selectMedia w (sources cfg) = Inr (format s, media s) \<and>
      (pairs_honoured w cfg \<longrightarrow> format s \<noteq> None)) \<and>
    (st = Error \<longrightarrow>
      controller s \<noteq> None \<and> player s \<noteq> None \<and>
      (\<exists>pre err. calls s = pre @ [Unload, Emit ERROR (Some (ErrorEventData err))]) \<and>
      ((\<exists>fmt. selectMedia w (sources cfg) = Inr (fmt, None)) \<and>
         media s = None \<and> format s = None \<or>
       (\<exists>c cause. createFirstSupported w CONTROLLER = Inr c \<and> load w c = Inl cause) \<and>
         media s \<noteq> None \<and> selectMedia w (sources cfg) = Inr (format s, media s) \<and>
         (pairs_honoured w cfg \<longrightarrow> format s \<noteq> None))) \<and>
    (st = Ready \<or> st = Error \<longrightarrow>
      snd (destroy s) = None \<and>
      controller (fst (destroy s)) = None \<and> player (fst (destroy s)) = None \<and>
      media (fst (destroy s)) = None \<and> format (fst (destroy s)) = None)"
proof (cases rule: bootstrap_cases [of w cfg])
  case (Ready e c es p fmt m)
  with assms have s: "s = final_ready cfg e c es p fmt m" "st = Ready" by simp_all
  have "controller s = Some c" by (simp add: s final_fields)
  from destroy_resolved [OF this] Ready(6) show ?thesis
    by (simp add: s final_fields pairs_honoured_def)
next
  case (NoMedia e c es p fmt)
  with assms have s: "s = final_no_media cfg e c es p" "st = Error" by simp_all
  have c: "controller s = Some c" by (simp add: s final_fields)
  have l: "\<exists>pre err. calls s = pre @ [Unload, Emit ERROR (Some (ErrorEventData err))]"
    by (simp add: s finals)
  from destroy_resolved [OF c] NoMedia(6) l show ?thesis
    by (simp add: s final_fields)
next
  case (LoadFailed e c es p fmt m cause)
  with assms have s: "s = final_load_failed cfg e c es p fmt m cause" "st = Error"
    by simp_all
  have c: "controller s = Some c" by (simp add: s final_fields)
  have l: "\<exists>pre err. calls s = pre @ [Unload, Emit ERROR (Some (ErrorEventData err))]"
    by (simp add: s finals)
  have r: "\<exists>c cause. createFirstSupported w CONTROLLER = Inr c \<and> load w c = Inl cause"
    using LoadFailed(3,7) by blast
  from destroy_resolved [OF c] LoadFailed(6) l r show ?thesis
    by (simp add: s final_fields pairs_honoured_def)
next
  case (Rejected x)
  with assms show ?thesis by auto
qed

text \<open>
  C2 as stated fails: in \<open>Error\<close> nothing is released; after a failed load even the media
  is still referenced.
\<close>

theorem lifecycle_references_counterexample:
  "snd (bootstrap world_no_media demo_config) = Error \<and>
   controller (fst (bootstrap world_no_media demo_config)) = Some demo_controller \<and>
   player (fst (bootstrap world_no_media demo_config)) = Some demo_player \<and>
   snd (bootstrap world_load_fails demo_config) = Error \<and>
   media (fst (bootstrap world_load_fails demo_config)) = Some demo_media"
  by (simp add: bootstrap_world_no_media bootstrap_world_load_fails final_fields)


theorem lifecycle_references_witness:
  "bootstrap world_ok demo_config = (fst (bootstrap world_ok demo_config), Ready) \<and>
   pairs_honoured world_ok demo_config \<and>
   controller (fst (bootstrap world_ok demo_config)) \<noteq> None \<and>
   player (fst (bootstrap world_ok demo_config)) \<noteq> None \<and>
   media (fst (bootstrap world_ok demo_config)) \<noteq> None \<and>
   format (fst (bootstrap world_ok demo_config)) \<noteq> None \<and>
   selectMedia world_ok (sources demo_config) =
     Inr (format (fst (bootstrap world_ok demo_config)),
          media (fst (bootstrap world_ok demo_config))) \<and>
   controller (fst (destroy (fst (bootstrap world_ok demo_config)))) = None \<and>
   bootstrap world_no_media demo_config = (fst (bootstrap world_no_media demo_config), Error) \<and>
   controller (fst (bootstrap world_no_media demo_config)) \<noteq> None \<and>
   player (fst (bootstrap world_no_media demo_config)) \<noteq> None \<and>
   media (fst (bootstrap world_no_media demo_config)) = None \<and>
   format (fst (bootstrap world_no_media demo_config)) = None \<and>
   snd (destroy (fst (bootstrap world_no_media demo_config))) = None \<and>
   media (fst (destroy (fst (bootstrap world_no_media demo_config)))) = None \<and>
   bootstrap world_load_fails demo_config =
     (fst (bootstrap world_load_fails demo_config), Error) \<and>
   pairs_honoured world_load_fails demo_config \<and>
   media (fst (bootstrap world_load_fails demo_config)) \<noteq> None \<and>
   format (fst (bootstrap world_load_fails demo_config)) \<noteq> None \<and>
   media (fst (destroy (fst (bootstrap world_load_fails demo_config)))) = None"
proof -
  have h1: "bootstrap world_ok demo_config = (fst (bootstrap world_ok demo_config), Ready)"
    by (simp add: bootstrap_world_ok)
  have h2: "bootstrap world_no_media demo_config =
      (fst (bootstrap world_no_media demo_config), Error)"
    by (simp add: bootstrap_world_no_media)
  have h3: "bootstrap world_load_fails demo_config =
      (fst (bootstrap world_load_fails demo_config), Error)"
    by (simp add: bootstrap_world_load_fails)
  have p1: "pairs_honoured world_ok demo_config"
    by (simp add: pairs_honoured_def world_ok_def)
  have p3: "pairs_honoured world_load_fails demo_config"
    by (simp add: pairs_honoured_def world_ok_def world_load_fails_def)
  have n2: "selectMedia world_no_media (sources demo_config) = Inr (None, None)"
    by (simp add: world_no_media_def)
  have n3: "selectMedia world_load_fails (sources demo_config) =
      Inr (Some demo_format, Some demo_media)"
    by (simp add: world_ok_def world_load_fails_def)
  from lifecycle_references [OF h1] p1
  have a: "controller (fst (bootstrap world_ok demo_config)) \<noteq> None"
    "player (fst (bootstrap world_ok demo_config)) \<noteq> None"
    "media (fst (bootstrap world_ok demo_config)) \<noteq> None"
    "format (fst (bootstrap world_ok demo_config)) \<noteq> None"
    "selectMedia world_ok (sources demo_config) =
       Inr (format (fst (bootstrap world_ok demo_config)),
            media (fst (bootstrap world_ok demo_config)))"
    "controller (fst (destroy (fst (bootstrap world_ok demo_config)))) = None"
    by simp_all
  from lifecycle_references [OF h2] n2
  have b: "controller (fst (bootstrap world_no_media demo_config)) \<noteq> None"
    "player (fst (bootstrap world_no_media demo_config)) \<noteq> None"
    "media (fst (bootstrap world_no_media demo_config)) = None"
    "format (fst (bootstrap world_no_media demo_config)) = None"
    "snd (destroy (fst (bootstrap world_no_media demo_config))) = None"
    "media (fst (destroy (fst (bootstrap world_no_media demo_config)))) = None"
    by auto
  from lifecycle_references [OF h3] n3 p3
  have c: "media (fst (bootstrap world_load_fails demo_config)) \<noteq> None"
    "format (fst (bootstrap world_load_fails demo_config)) \<noteq> None"
    "media (fst (destroy (fst (bootstrap world_load_fails demo_config)))) = None"
    by auto
  from h1 h2 h3 p1 p3 a b c show ?thesis
    by blast
qed

section \<open>Invariants of the reachable configurations\<close>

lemma run_snoc: "run (Suc k) w c = step w (run k w c)"
  by (induction k arbitrary: c) simp_all

lemma reachable_run: "reachable w cfg (run k w (start cfg))"
proof (induction k)
  case 0
  show ?case by (simp add: start_def reachable.constructed)
next
  case (Suc k)
  then show ?case unfolding run_snoc by (rule reachable.resumed)
qed

lemma reachable_bootstrap: "reachable w cfg (bootstrap w cfg)"
  using reachable_run [of w cfg 8] by (simp add: bootstrap_def init_def start_def)


lemma done_before_simps:
  "done_before cfg AwaitPolyfills = []"
  "done_before cfg AwaitEnv = preamble cfg"
  "done_before cfg AwaitController = preamble cfg @ [GetEnv]"
  "done_before cfg AwaitBoot = preamble cfg @ [GetEnv, CreateFirstSupported CONTROLLER]"
  "done_before cfg AwaitExtensions =
     preamble cfg @ [GetEnv, CreateFirstSupported CONTROLLER, Boot]"
  "done_before cfg AwaitPlayer =
     preamble cfg @ [GetEnv, CreateFirstSupported CONTROLLER, Boot, CreateAllSupported EXTENSION]"
  "done_before cfg AwaitMedia =
     preamble cfg @ [GetEnv, CreateFirstSupported CONTROLLER, Boot, CreateAllSupported EXTENSION,
       CreateFirstSupported PLAYER]"
  "done_before cfg AwaitLoad =
     preamble cfg @ [GetEnv, CreateFirstSupported CONTROLLER, Boot, CreateAllSupported EXTENSION,
       CreateFirstSupported PLAYER, SelectMedia (sources cfg)]"
  by (simp_all add: done_before_def stages_def preamble_def)

lemma plan_eq:
  "plan cfg =
     preamble cfg @ [GetEnv, CreateFirstSupported CONTROLLER, Boot, CreateAllSupported EXTENSION,
       CreateFirstSupported PLAYER, SelectMedia (sources cfg), Load]"
  by (simp add: plan_def stages_def preamble_def)

lemma in_order_start: "in_order w cfg (constructor cfg, At AwaitPolyfills)"
  by (simp add: in_order_def constructor_def done_before_simps)

lemma in_order_step:
  assumes "in_order w cfg (s, st)"
  shows "in_order w cfg (step w (s, st))"
proof (cases st)
  case (At stage)
  with assms show ?thesis
    by (cases stage)
      (auto simp: in_order_def done_before_simps plan_eq ops Let_def preamble_def not_isl_iff
        split: sum.splits option.splits bool.splits)
qed (use assms in \<open>simp_all add: in_order_def\<close>)


lemma in_order_frame:
  assumes "in_order w cfg (s, st)"
    and "config s' = config s"
    and "filter awaited (calls s') = filter awaited (calls s)"
    and "controller s' = controller s \<or> controller s' = None"
  shows "in_order w cfg (s', st)"
  using assms by (auto simp: in_order_def split: status.splits)

lemma frame_play:
  "config (fst (play s)) = config s"
  "filter awaited (calls (fst (play s))) = filter awaited (calls s)"
  "controller (fst (play s)) = controller s"
  "format (fst (play s)) = format s" "media (fst (play s)) = media s"
  by (simp_all add: ops split: option.split)

lemma frame_pause:
  "config (fst (pause s)) = config s"
  "filter awaited (calls (fst (pause s))) = filter awaited (calls s)"
  "controller (fst (pause s)) = controller s"
  "format (fst (pause s)) = format s" "media (fst (pause s)) = media s"
  by (simp_all add: ops split: option.split)

lemma frame_seekTo:
  "config (fst (seekTo time s)) = config s"
  "filter awaited (calls (fst (seekTo time s))) = filter awaited (calls s)"
  "controller (fst (seekTo time s)) = controller s"
  "format (fst (seekTo time s)) = format s" "media (fst (seekTo time s)) = media s"
  by (simp_all add: ops split: option.split)

lemma frame_setVolume:
  "config (fst (setVolume volume s)) = config s"
  "filter awaited (calls (fst (setVolume volume s))) = filter awaited (calls s)"
  "controller (fst (setVolume volume s)) = controller s"
  "format (fst (setVolume volume s)) = format s" "media (fst (setVolume volume s)) = media s"
  by (simp_all add: ops split: option.split)

lemma frame_setError:
  "config (fst (setError err s)) = config s"
  "filter awaited (calls (fst (setError err s))) = filter awaited (calls s)"
  "controller (fst (setError err s)) = controller s"
  "format (fst (setError err s)) = format s" "media (fst (setError err s)) = media s"
  by (simp_all add: ops split: option.split)

lemma frame_emit:
  "config (emit ev data s) = config s"
  "filter awaited (calls (emit ev data s)) = filter awaited (calls s)"
  "controller (emit ev data s) = controller s"
  "format (emit ev data s) = format s" "media (emit ev data s) = media s"
  by (simp_all add: ops)

lemma frame_destroy:
  "config (fst (destroy s)) = config s"
  "filter awaited (calls (fst (destroy s))) = filter awaited (calls s)"
  "controller (fst (destroy s)) = controller s \<or> controller (fst (destroy s)) = None"
  "format (fst (destroy s)) = format s \<and> media (fst (destroy s)) = media s \<or>
   format (fst (destroy s)) = None \<and> media (fst (destroy s)) = None"
  by (simp_all add: destroy_def ops Let_def split: option.split)

lemma reachable_in_order:
  assumes "reachable w cfg c"
  shows "in_order w cfg c"
  using assms
proof (induction rule: reachable.induct)
  case constructed
  show ?case by (rule in_order_start)
next
  case (resumed c)
  then show ?case by (cases c) (simp add: in_order_step)
next
  case (called_play s st)
  from called_play.IH show ?case by (rule in_order_frame) (simp_all add: frame_play)
next
  case (called_pause s st)
  from called_pause.IH show ?case by (rule in_order_frame) (simp_all add: frame_pause)
next
  case (called_seekTo s st time)
  from called_seekTo.IH show ?case by (rule in_order_frame) (simp_all add: frame_seekTo)
next
  case (called_setVolume s st volume)
  from called_setVolume.IH show ?case by (rule in_order_frame) (simp_all add: frame_setVolume)
next
  case (called_setError s st err)
  from called_setError.IH show ?case by (rule in_order_frame) (simp_all add: frame_setError)
next
  case (called_emit s st ev data)
  from called_emit.IH show ?case by (rule in_order_frame) (simp_all add: frame_emit)
next
  case (called_destroy s st)
  from called_destroy.IH show ?case by (rule in_order_frame) (simp_all add: frame_destroy)
qed

text \<open>
  C7. In every reachable configuration the awaited calls made so far are an initial
  segment of the plan: polyfills (unless ignored), environment snapshot, controller
  resolution, \<^verbatim>\<open>boot()\<close>, extension resolution, player resolution, media selection,
  \<^verbatim>\<open>load()\<close>. When control stands at a stage, the calls made are exactly those of the stages
  before it, and the promise of each of them has been resolved: no stage begins before
  the previous one has completed.
\<close>

theorem stages_in_order:
  assumes "reachable w cfg (s, st)"
  shows "prefix (filter awaited (calls s)) (plan cfg) \<and>
    (\<forall>stage. st = At stage \<longrightarrow>
       filter awaited (calls s) = done_before cfg stage \<and> reaches w cfg stage)"
  using reachable_in_order [OF assms] by (auto simp: in_order_def)

theorem stages_in_order_witness:
  "reachable world_ok demo_config
     (fst (run 3 world_ok (start demo_config)), At AwaitBoot) \<and>
   filter awaited (calls (fst (run 3 world_ok (start demo_config)))) =
     done_before demo_config AwaitBoot \<and>
   reaches world_ok demo_config AwaitBoot \<and>
   reachable world_ok demo_config (fst (bootstrap world_ok demo_config), Ready) \<and>
   prefix (filter awaited (calls (fst (bootstrap world_ok demo_config)))) (plan demo_config)"
proof -
  have "snd (run 3 world_ok (start demo_config)) = At AwaitBoot"
    by (simp add: start_def constructor_def run_numeral ops world_ok_def demo_config_def)
  then have "run 3 world_ok (start demo_config) =
      (fst (run 3 world_ok (start demo_config)), At AwaitBoot)"
    by (cases "run 3 world_ok (start demo_config)") simp
  with reachable_run [of world_ok demo_config 3]
  have h1: "reachable world_ok demo_config
      (fst (run 3 world_ok (start demo_config)), At AwaitBoot)"
    by simp
  from reachable_bootstrap [of world_ok demo_config]
  have h2: "reachable world_ok demo_config (fst (bootstrap world_ok demo_config), Ready)"
    by (simp add: bootstrap_world_ok)
  from stages_in_order [OF h1] stages_in_order [OF h2] h1 h2 show ?thesis
    by simp
qed

lemma paired_start: "paired w cfg (constructor cfg)"
  by (simp add: paired_def constructor_def)

lemma paired_step:
  assumes "paired w cfg s"
  shows "paired w cfg (fst (step w (s, st)))"
proof (cases st)
  case (At stage)
  with assms show ?thesis
    by (cases stage)
      (auto simp: paired_def ops Let_def split: sum.splits option.splits bool.splits)
qed (use assms in simp_all)

lemma paired_frame:
  assumes "paired w cfg s"
    and "config s' = config s"
    and "format s' = format s \<and> media s' = media s \<or> format s' = None \<and> media s' = None"
  shows "paired w cfg s'"
  using assms by (auto simp: paired_def)

lemma reachable_paired:
  assumes "reachable w cfg c"
  shows "paired w cfg (fst c)"
  using assms
proof (induction rule: reachable.induct)
  case constructed
  show ?case by (simp add: paired_start)
next
  case (resumed c)
  then show ?case by (cases c) (simp add: paired_step)
next
  case (called_play s st)
  from called_play.IH show ?case by (auto intro: paired_frame simp: frame_play)
next
  case (called_pause s st)
  from called_pause.IH show ?case by (auto intro: paired_frame simp: frame_pause)
next
  case (called_seekTo s st time)
  from called_seekTo.IH show ?case by (auto intro: paired_frame simp: frame_seekTo)
next
  case (called_setVolume s st volume)
  from called_setVolume.IH show ?case by (auto intro: paired_frame simp: frame_setVolume)
next
  case (called_setError s st err)
  from called_setError.IH show ?case by (auto intro: paired_frame simp: frame_setError)
next
  case (called_emit s st ev data)
  from called_emit.IH show ?case by (auto intro: paired_frame simp: frame_emit)
next
  case (called_destroy s st)
  from called_destroy.IH show ?case using frame_destroy [of s] by (auto intro: paired_frame)
qed

text \<open>
  C10. In every reachable configuration the fields \<^verbatim>\<open>format\<close> and \<^verbatim>\<open>media\<close> are either both
  unset or hold the two components of the selector's answer, whose media is not null.
  When the selector yields no media, both stay unset. Since a media never comes without
  its format, the instance never holds a format without a media or a media without a
  format. (The two assignments in \<^verbatim>\<open>init\<close> have no \<^verbatim>\<open>await\<close> between them, so nothing
  observes the instance between them.)
\<close>

theorem format_and_media_together:
  assumes "reachable w cfg (s, st)"
  shows "(format s = None \<and> media s = None \<or>
      selectMedia w (sources cfg) = Inr (format s, media s) \<and> media s \<noteq> None) \<and>
    (\<forall>fmt. selectMedia w (sources cfg) = Inr (fmt, None) \<longrightarrow>
       format s = None \<and> media s = None) \<and>
    (pairs_honoured w cfg \<longrightarrow> (format s = None \<longleftrightarrow> media s = None))"
  using reachable_paired [OF assms]
  by (auto simp: paired_def pairs_honoured_def)

theorem format_and_media_together_witness:
  "reachable world_ok demo_config (fst (bootstrap world_ok demo_config), Ready) \<and>
   pairs_honoured world_ok demo_config \<and>
   selectMedia world_ok (sources demo_config) =
     Inr (format (fst (bootstrap world_ok demo_config)),
          media (fst (bootstrap world_ok demo_config))) \<and>
   format (fst (bootstrap world_ok demo_config)) \<noteq> None \<and>
   media (fst (bootstrap world_ok demo_config)) \<noteq> None \<and>
   reachable world_no_media demo_config (fst (bootstrap world_no_media demo_config), Error) \<and>
   selectMedia world_no_media (sources demo_config) = Inr (None, None) \<and>
   format (fst (bootstrap world_no_media demo_config)) = None \<and>
   media (fst (bootstrap world_no_media demo_config)) = None"
proof -
  from reachable_bootstrap [of world_ok demo_config]
  have h1: "reachable world_ok demo_config (fst (bootstrap world_ok demo_config), Ready)"
    by (simp add: bootstrap_world_ok)
  from reachable_bootstrap [of world_no_media demo_config]
  have h2: "reachable world_no_media demo_config
      (fst (bootstrap world_no_media demo_config), Error)"
    by (simp add: bootstrap_world_no_media)
  have h3: "pairs_honoured world_ok demo_config"
    by (simp add: pairs_honoured_def world_ok_def)
  have h4: "selectMedia world_no_media (sources demo_config) = Inr (None, None)"
    by (simp add: world_no_media_def)
  have h5: "media (fst (bootstrap world_ok demo_config)) \<noteq> None"
    by (simp add: bootstrap_world_ok final_fields)
  from format_and_media_together [OF h1] h3 h5
  have a: "selectMedia world_ok (sources demo_config) =
      Inr (format (fst (bootstrap world_ok demo_config)),
           media (fst (bootstrap world_ok demo_config)))"
    "format (fst (bootstrap world_ok demo_config)) \<noteq> None"
    by blast+
  from format_and_media_together [OF h2] h4
  have b: "format (fst (bootstrap world_no_media demo_config)) = None"
    "media (fst (bootstrap world_no_media demo_config)) = None"
    by blast+
  from h1 h2 h3 h4 h5 a b show ?thesis by blast
qed

end
